theory Spec2Isabelle
  imports Main
begin

section \<open>notectl: a shallow embedding of the note store and its command dispatch\<close>

text \<open>
  The program is one Go file: a \<open>main\<close> that parses one of three subcommands
  (\<open>new\<close>, \<open>show\<close>, \<open>delete\<close>) and a handful of functions that run one SQL
  statement each against a single SQLite table \<open>notes\<close>. The embedding keeps the
  functions and their names. What lies outside the file is passed in:
  \<^item> the database file is an argument of type \<open>database\<close> (\<open>connectToDatabase\<close>
    only hands the path to \<open>sql.Open\<close>, which does not touch the file);
  \<^item> the state a \<open>flag.FlagSet\<close> is left in by \<open>Parse\<close> is a record of what
    \<open>main\<close> reads from it (a command line \<open>Parse\<close> rejects ends the process
    inside the library and is no input here);
  \<^item> \<open>time.Now()\<close>, standard input and the text editor are fields of a record
    \<open>world\<close>.
  Go's \<open>int\<close> and SQLite's INTEGER are both 64-bit; the program only compares and
  stores them, so they are HOL integers here, and the one place that produces an
  integer from text (\<open>strconv.Atoi\<close>) clamps to the 64-bit range as the library does.
\<close>

subsection \<open>Data\<close>

text \<open>The four methods of \<open>time.Time\<close> the program calls, as fields.\<close>

record gotime =
  Day :: int
  Month :: int
  Year :: int
  Unix :: int

type_synonym tagList = "string list"

record "note" =
  Time :: gotime
  Text :: string
  Tags :: tagList

text \<open>
  One row of
  \<^verbatim>\<open>notes (id INTEGER PRIMARY KEY, day INTEGER, month INTEGER, year INTEGER,
         timestamp INTEGER, notetext BLOB, tags TEXT)\<close>.
  The column \<open>id\<close> is called \<open>id_col\<close>, since \<open>id\<close> is the identity function of HOL.
\<close>

record row =
  id_col :: int
  day :: int
  month :: int
  year :: int
  timestamp :: int
  notetext :: string
  tags :: string

text \<open>
  The database file: \<open>None\<close> when it holds no table \<open>notes\<close>, otherwise the rows of
  the table in rowid order, which is the order \<open>SELECT *\<close> yields them in.
\<close>

type_synonym database = "row list option"

datatype error =
    IndexOutOfRange    \<comment> \<open>\<open>d[i]\<close> beyond the slice\<close>
  | NilDereference     \<comment> \<open>a method called on the nil \<open>*sql.Stmt\<close> or \<open>*sql.Rows\<close> that a failed \<open>Prepare\<close> or \<open>Query\<close> returns\<close>
  | EOF                \<comment> \<open>\<open>ReadRune\<close> at the end of standard input\<close>
  | TempFileError
  | CloseError
  | LookPathError
  | RunError

datatype flagset = CommandLine | newCommand | showCommand | deleteCommand

text \<open>What a run writes to the console or starts, in order.\<close>

datatype event =
    Println string
  | PrintDefaults flagset
  | PrintNote gotime string string   \<comment> \<open>the line of \<open>PrintConsole\<close>: time, text, \<open>Tags.String()\<close>\<close>
  | PrintRow row                     \<comment> \<open>the line \<open>printRows\<close> prints for a row\<close>
  | RunEditor                        \<comment> \<open>\<open>cmd.Run()\<close> of the editor\<close>
  | RemoveTempFile                   \<comment> \<open>the deferred \<open>os.Remove\<close>\<close>

datatype status = Returned | Exit int | Panicked error

record result =
  status :: status
  console :: "event list"
  store :: database

subsection \<open>Library functions the program calls\<close>

text \<open>\<open>strings.Split(s, sep)\<close> for a separator of one byte, as both calls have it.\<close>

fun strings_Split :: "string \<Rightarrow> char \<Rightarrow> string list" where
  "strings_Split [] sep = [ [] ]"
| "strings_Split (c # cs) sep =
     (if c = sep then [] # strings_Split cs sep
      else (case strings_Split cs sep of
              [] \<Rightarrow> [ [c] ]
            | w # ws \<Rightarrow> (c # w) # ws))"

fun strings_Join :: "string list \<Rightarrow> string \<Rightarrow> string" where
  "strings_Join [] sep = []"
| "strings_Join [x] sep = x"
| "strings_Join (x # y # ys) sep = x @ sep @ strings_Join (y # ys) sep"

definition isDigit :: "char \<Rightarrow> bool" where
  "isDigit c = (48 \<le> (of_char c :: nat) \<and> (of_char c :: nat) \<le> 57)"

fun decimal :: "int \<Rightarrow> string \<Rightarrow> int" where
  "decimal acc [] = acc"
| "decimal acc (c # cs) = decimal (acc * 10 + (of_char c - 48)) cs"

text \<open>
  \<open>strconv.Atoi\<close>: an optional sign, then decimal digits only. It returns the value
  and whether it failed: 0 on a syntax error, the nearest 64-bit bound on a range
  error.
\<close>

definition strconv_Atoi :: "string \<Rightarrow> int \<times> bool" where
  "strconv_Atoi s =
     (let neg = (case s of [] \<Rightarrow> False | c # _ \<Rightarrow> c = CHR ''-'');
          ds = (case s of [] \<Rightarrow> [] | c # cs \<Rightarrow> if c = CHR ''-'' \<or> c = CHR ''+'' then cs else s)
      in if ds = [] \<or> \<not> list_all isDigit ds then (0, True)
         else (let un = decimal 0 ds
               in if \<not> neg \<and> un \<ge> 2 ^ 63 then (2 ^ 63 - 1, True)
                  else if neg \<and> un > 2 ^ 63 then (- (2 ^ 63), True)
                  else (if neg then - un else un, False)))"

text \<open>Indexing a slice panics out of range.\<close>

definition index :: "'a list \<Rightarrow> nat \<Rightarrow> error + 'a" where
  "index xs i = (if i < length xs then Inr (xs ! i) else Inl IndexOutOfRange)"

subsection \<open>Tags and notes\<close>

text \<open>
  \<open>String\<close> formats the slice with \<open>%v\<close>. The method has a pointer receiver and
  \<open>Sprintf\<close> is handed the slice itself, so \<open>fmt\<close> prints it as it prints any
  slice of strings: the elements separated by one space, in square brackets.
\<close>

definition tagList_String :: "tagList \<Rightarrow> string" where
  "tagList_String s = ''['' @ strings_Join s '' '' @ '']''"

definition tagList_Set :: "string \<Rightarrow> tagList" where
  "tagList_Set v = strings_Split v (CHR '','')"

definition PrintConsole :: "note \<Rightarrow> event list" where
  "PrintConsole n = [PrintNote (Time n) (Text n) (tagList_String (Tags n))]"

subsection \<open>Storage\<close>

definition createTableIfNotExist :: "database \<Rightarrow> database" where
  "createTableIfNotExist db = (case db of None \<Rightarrow> Some [] | Some rs \<Rightarrow> Some rs)"

text \<open>
  No id is given on insert, so SQLite chooses the rowid: 1 in an empty table, one more
  than the largest rowid otherwise (the rule holds below the largest 64-bit rowid,
  which takes \<open>2^63 - 1\<close> inserts to reach).
\<close>

definition next_rowid :: "row list \<Rightarrow> int" where
  "next_rowid rs = (if rs = [] then 1 else Max (set (map id_col rs)) + 1)"

definition Save :: "note \<Rightarrow> database \<Rightarrow> error + database" where
  "Save n db =
     (case db of
        None \<Rightarrow> Inl NilDereference
      | Some rs \<Rightarrow>
          Inr (Some (rs @ [\<lparr>id_col = next_rowid rs,
                            day = Day (Time n), month = Month (Time n), year = Year (Time n),
                            timestamp = Unix (Time n),
                            notetext = Text n, tags = tagList_String (Tags n)\<rparr>])))"

text \<open>\<open>database.Query\<close> with the WHERE clause as a predicate; no rows object without the table.\<close>

definition Query :: "(row \<Rightarrow> bool) \<Rightarrow> database \<Rightarrow> row list option" where
  "Query wh db = (case db of None \<Rightarrow> None | Some rs \<Rightarrow> Some (filter wh rs))"

definition printRows :: "row list option \<Rightarrow> error + event list" where
  "printRows rows = (case rows of None \<Rightarrow> Inl NilDereference | Some rs \<Rightarrow> Inr (map PrintRow rs))"

definition showAllNotes :: "database \<Rightarrow> error + event list" where
  "showAllNotes db = printRows (Query (\<lambda>r. True) db)"

definition showNoteByID :: "int \<Rightarrow> database \<Rightarrow> error + event list" where
  "showNoteByID i db = printRows (Query (\<lambda>r. id_col r = i) db)"

text \<open>
  \<open>showNoteByDay\<close> reads the clock twice, once for the month and once for the year:
  \<open>now1\<close> and \<open>now2\<close> are the two readings.
\<close>

definition showNoteByDay :: "int \<Rightarrow> gotime \<Rightarrow> gotime \<Rightarrow> database \<Rightarrow> error + event list" where
  "showNoteByDay d now1 now2 db =
     printRows (Query (\<lambda>r. day r = d \<and> month r = Month now1 \<and> year r = Year now2) db)"

definition showNoteByMonth :: "int \<Rightarrow> gotime \<Rightarrow> database \<Rightarrow> error + event list" where
  "showNoteByMonth m now1 db =
     printRows (Query (\<lambda>r. month r = m \<and> year r = Year now1) db)"

definition showNoteByYear :: "int \<Rightarrow> database \<Rightarrow> error + event list" where
  "showNoteByYear y db = printRows (Query (\<lambda>r. year r = y) db)"

text \<open>
  The three fields of the date, read at the given positions of the split string in
  the order the source reads them; the error of \<open>Atoi\<close> is dropped.
\<close>

definition dateFields :: "string list \<Rightarrow> nat \<Rightarrow> nat \<Rightarrow> nat \<Rightarrow> error + (int \<times> int \<times> int)" where
  "dateFields d i j k =
     (case index d i of
        Inl e \<Rightarrow> Inl e
      | Inr a \<Rightarrow>
          (case index d j of
             Inl e \<Rightarrow> Inl e
           | Inr b \<Rightarrow>
               (case index d k of
                  Inl e \<Rightarrow> Inl e
                | Inr c \<Rightarrow> Inr (fst (strconv_Atoi a), fst (strconv_Atoi b), fst (strconv_Atoi c)))))"

definition showNoteByDate :: "string \<Rightarrow> bool \<Rightarrow> database \<Rightarrow> error + event list" where
  "showNoteByDate date usa db =
     (let d = strings_Split date (CHR ''/'')
      in case (if usa then dateFields d 1 0 2 else dateFields d 0 1 2) of
           Inl e \<Rightarrow> Inl e
         | Inr (dd, mm, yy) \<Rightarrow>
             printRows (Query (\<lambda>r. day r = dd \<and> month r = mm \<and> year r = yy) db))"

subsection \<open>Confirmation and the editor\<close>

text \<open>
  Standard input is the sequence of runes \<open>ReadRune\<close> decodes from it; a rune is its
  code point.
\<close>

type_synonym rune = int

definition deleteAll :: "rune list \<Rightarrow> database \<Rightarrow> result" where
  "deleteAll stdin db =
     (let ask = Println ''Are you sure you want to delete all notes? (y/n)''
      in case stdin of
           [] \<Rightarrow> \<lparr>status = Panicked EOF, console = [ask], store = db\<rparr>
         | char # _ \<Rightarrow>
             if char = of_char (CHR ''y'') \<or> char = of_char (CHR ''Y'')
             then (case db of
                     None \<Rightarrow> \<lparr>status = Panicked NilDereference,
                              console = [ask, Println ''Deleting all notes...''], store = db\<rparr>
                   | Some rs \<Rightarrow> \<lparr>status = Returned,
                                 console = [ask, Println ''Deleting all notes...''],
                                 store = createTableIfNotExist None\<rparr>)
             else \<lparr>status = Returned,
                   console = [ask, Println ''Not deleting notes, everything is still there.''],
                   store = db\<rparr>)"

text \<open>
  What the environment does to the editor session: which of the calls fail, and the
  bytes \<open>ioutil.ReadFile\<close> returns for the temporary file afterwards (its error is
  dropped by the source).
\<close>

record editor_env =
  tempFileFails :: bool
  closeFails :: bool
  lookPathFails :: bool
  runFails :: bool
  fileBytes :: string

definition openFileInEditor :: "editor_env \<Rightarrow> event list \<times> error option" where
  "openFileInEditor env =
     (if lookPathFails env then ([], Some LookPathError)
      else ([RunEditor], if runFails env then Some RunError else None))"

definition captureFromEditor :: "editor_env \<Rightarrow> event list \<times> (error + string)" where
  "captureFromEditor env =
     (if tempFileFails env then ([], Inl TempFileError)
      else if closeFails env then ([RemoveTempFile], Inl CloseError)
      else (case openFileInEditor env of
              (evs, Some e) \<Rightarrow> (evs @ [RemoveTempFile], Inl e)
            | (evs, None) \<Rightarrow> (evs @ [RemoveTempFile], Inr (fileBytes env))))"

subsection \<open>The command dispatcher\<close>

text \<open>
  What \<open>main\<close> reads from \<open>newCommand\<close> after \<open>Parse\<close>: the three flag variables, the
  number of flags that were set, the remaining positional arguments, and
  \<open>os.Args[2:]\<close>.
\<close>

record new_flags =
  newNotePtr :: string
  newEditorNotePtr :: bool
  newTagList :: tagList
  NFlag :: nat
  Args :: "string list"
  osArgs :: "string list"

record show_flags =
  showAllPtr :: bool
  showByIDPtr :: int
  showByDayPtr :: int
  showByMonthPtr :: int
  showByYearPtr :: int
  showByDatePtr :: string
  showUSADatePtr :: bool

text \<open>
  How the run got past the \<open>switch\<close> on \<open>os.Args[1]\<close>: without a subcommand, with
  one that is none of the three, or with the one flag set that was parsed.
\<close>

datatype invocation =
    NoSubcommand
  | UnknownSubcommand
  | ParsedNew new_flags
  | ParsedShow show_flags
  | ParsedDelete bool

text \<open>
  \<open>now1\<close> and \<open>now2\<close> are the first and second reading of \<open>time.Now()\<close> in the run.
\<close>

record world =
  now1 :: gotime
  now2 :: gotime
  stdin :: "rune list"
  editor :: editor_env

text \<open>
  The end of a \<open>show\<close> run: either the show function panicked, or it returned what
  it printed and \<open>main\<close> returns. The show functions leave the database as it is.
\<close>

definition finish :: "error + event list \<Rightarrow> database \<Rightarrow> result" where
  "finish r db =
     (case r of
        Inl e \<Rightarrow> \<lparr>status = Panicked e, console = [], store = db\<rparr>
      | Inr evs \<Rightarrow> \<lparr>status = Returned, console = evs, store = db\<rparr>)"

text \<open>
  The three blocks of \<open>main\<close> guarded by \<open>newCommand.Parsed()\<close>,
  \<open>showCommand.Parsed()\<close> and \<open>deleteCommand.Parsed()\<close>; exactly one flag set is
  parsed in a run that gets there.
\<close>

definition main_new :: "new_flags \<Rightarrow> world \<Rightarrow> database \<Rightarrow> result" where
  "main_new f w db0 =
     (let database = createTableIfNotExist db0
      in if newNotePtr f = [] \<and> NFlag f > 0 \<and> \<not> newEditorNotePtr f
         then \<lparr>status = Exit 1, console = [PrintDefaults newCommand], store = database\<rparr>
         else
           (let tgs = (if length (newTagList f) = 0 then tagList_Set ''generic'' else newTagList f);
                (evs, txt) =
                  (if NFlag f = 0 \<or> newEditorNotePtr f
                   then (if length (osArgs f) = 0 \<or> newEditorNotePtr f
                         then captureFromEditor (editor w)
                         else ([], Inr (strings_Join (Args f) '' '')))
                   else ([], Inr (newNotePtr f)))
            in case txt of
                 Inl e \<Rightarrow> \<lparr>status = Panicked e, console = evs, store = database\<rparr>
               | Inr t \<Rightarrow>
                   (let n = \<lparr>Time = now1 w, Text = t, Tags = tgs\<rparr>
                    in case Save n database of
                         Inl e \<Rightarrow> \<lparr>status = Panicked e, console = evs @ PrintConsole n,
                                   store = database\<rparr>
                       | Inr db' \<Rightarrow> \<lparr>status = Returned, console = evs @ PrintConsole n,
                                     store = db'\<rparr>)))"

definition main_show :: "show_flags \<Rightarrow> world \<Rightarrow> database \<Rightarrow> result" where
  "main_show f w db0 =
     (let database = createTableIfNotExist db0
      in if showAllPtr f then finish (showAllNotes database) database
         else if showByIDPtr f \<noteq> - 1 then finish (showNoteByID (showByIDPtr f) database) database
         else if showByDayPtr f \<noteq> - 1
           then finish (showNoteByDay (showByDayPtr f) (now1 w) (now2 w) database) database
         else if showByMonthPtr f \<noteq> - 1
           then finish (showNoteByMonth (showByMonthPtr f) (now1 w) database) database
         else if showByYearPtr f \<noteq> - 1
           then finish (showNoteByYear (showByYearPtr f) database) database
         else if showByDatePtr f \<noteq> []
           then finish (showNoteByDate (showByDatePtr f) (showUSADatePtr f) database) database
         else \<lparr>status = Exit 1, console = [PrintDefaults showCommand], store = database\<rparr>)"

definition main_delete :: "bool \<Rightarrow> world \<Rightarrow> database \<Rightarrow> result" where
  "main_delete deleteAllPtr w db0 =
     (let database = createTableIfNotExist db0
      in if deleteAllPtr then deleteAll (stdin w) database
         else \<lparr>status = Exit 1, console = [PrintDefaults deleteCommand], store = database\<rparr>)"

definition main :: "invocation \<Rightarrow> world \<Rightarrow> database \<Rightarrow> result" where
  "main cmd w db =
     (case cmd of
        NoSubcommand \<Rightarrow> \<lparr>status = Exit 1, console = [Println ''subcommand required''], store = db\<rparr>
      | UnknownSubcommand \<Rightarrow> \<lparr>status = Exit 1, console = [PrintDefaults CommandLine], store = db\<rparr>
      | ParsedNew f \<Rightarrow> main_new f w db
      | ParsedShow f \<Rightarrow> main_show f w db
      | ParsedDelete a \<Rightarrow> main_delete a w db)"

subsection \<open>Notions the properties are stated with\<close>

text \<open>The rows a database file holds; none without the table.\<close>

definition rows_of :: "database \<Rightarrow> row list" where
  "rows_of db = (case db of None \<Rightarrow> [] | Some rs \<Rightarrow> rs)"

text \<open>
  The filters of \<open>show\<close> in the order the specification gives them, and when each
  counts as set.
\<close>

datatype filter_name = F_all | F_id | F_day | F_month | F_year | F_date

definition filter_precedence :: "filter_name list" where
  "filter_precedence = [F_all, F_id, F_day, F_month, F_year, F_date]"

fun filter_set :: "show_flags \<Rightarrow> filter_name \<Rightarrow> bool" where
  "filter_set f F_all = showAllPtr f"
| "filter_set f F_id = (showByIDPtr f \<noteq> - 1)"
| "filter_set f F_day = (showByDayPtr f \<noteq> - 1)"
| "filter_set f F_month = (showByMonthPtr f \<noteq> - 1)"
| "filter_set f F_year = (showByYearPtr f \<noteq> - 1)"
| "filter_set f F_date = (showByDatePtr f \<noteq> [])"

fun apply_filter :: "filter_name \<Rightarrow> show_flags \<Rightarrow> world \<Rightarrow> database \<Rightarrow> error + event list" where
  "apply_filter F_all f w db = showAllNotes db"
| "apply_filter F_id f w db = showNoteByID (showByIDPtr f) db"
| "apply_filter F_day f w db = showNoteByDay (showByDayPtr f) (now1 w) (now2 w) db"
| "apply_filter F_month f w db = showNoteByMonth (showByMonthPtr f) (now1 w) db"
| "apply_filter F_year f w db = showNoteByYear (showByYearPtr f) db"
| "apply_filter F_date f w db = showNoteByDate (showByDatePtr f) (showUSADatePtr f) db"

text \<open>
  A run of \<open>new\<close> that builds the note from a time, a text and a tag list, echoes it
  after the events \<open>evs\<close>, and inserts it.
\<close>

definition note_saved :: "event list \<Rightarrow> gotime \<Rightarrow> string \<Rightarrow> tagList \<Rightarrow> database \<Rightarrow> result" where
  "note_saved evs t txt tgs db =
     \<lparr>status = Returned,
      console = evs @ [PrintNote t txt (tagList_String tgs)],
      store = Some (rows_of db @
                [\<lparr>id_col = next_rowid (rows_of db),
                  day = Day t, month = Month t, year = Year t, timestamp = Unix t,
                  notetext = txt, tags = tagList_String tgs\<rparr>])\<rparr>"

text \<open>The usage test of \<open>new\<close>, and the tag list the note is built with.\<close>

definition new_usage_error :: "new_flags \<Rightarrow> bool" where
  "new_usage_error f = (newNotePtr f = [] \<and> NFlag f > 0 \<and> \<not> newEditorNotePtr f)"

definition note_tags :: "new_flags \<Rightarrow> tagList" where
  "note_tags f = (if newTagList f = [] then [''generic''] else newTagList f)"

text \<open>
  The invocations that end in a usage error: \<open>show\<close> with no filter set, \<open>delete\<close>
  without \<open>-all\<close>, \<open>new\<close> with flags but neither a note text nor the editor.
\<close>

fun usage_error :: "invocation \<Rightarrow> bool" where
  "usage_error (ParsedShow f) = (find (filter_set f) filter_precedence = None)"
| "usage_error (ParsedDelete a) = (\<not> a)"
| "usage_error (ParsedNew f) = new_usage_error f"
| "usage_error NoSubcommand = False"
| "usage_error UnknownSubcommand = False"





text \<open>A field \<open>strconv.Atoi\<close> parses without a syntax error: a sign, if any, and digits.\<close>

definition numeric :: "string \<Rightarrow> bool" where
  "numeric s =
     (case s of
        [] \<Rightarrow> False
      | c # cs \<Rightarrow> if c = CHR ''-'' \<or> c = CHR ''+'' then cs \<noteq> [] \<and> list_all isDigit cs
                  else list_all isDigit s)"

subsection \<open>Example inputs\<close>

definition t0 :: gotime where
  "t0 = \<lparr>Day = 20, Month = 4, Year = 2024, Unix = 1713600000\<rparr>"

definition ed0 :: editor_env where
  "ed0 = \<lparr>tempFileFails = False, closeFails = False, lookPathFails = False, runFails = False,
          fileBytes = ''typed in the editor''\<rparr>"

definition w0 :: world where
  "w0 = \<lparr>now1 = t0, now2 = t0, stdin = [], editor = ed0\<rparr>"

text \<open>A row of 5 March 2024 and a row of 5 April 2024.\<close>

definition row_mar :: row where
  "row_mar = \<lparr>id_col = 1, day = 5, month = 3, year = 2024, timestamp = 1709640000,
              notetext = ''a'', tags = ''[generic]''\<rparr>"

definition row_apr :: row where
  "row_apr = \<lparr>id_col = 2, day = 5, month = 4, year = 2024, timestamp = 1712318400,
              notetext = ''b'', tags = ''[generic]''\<rparr>"

text \<open>A row of 1 February 2023.\<close>

definition row_feb :: row where
  "row_feb = \<lparr>id_col = 1, day = 1, month = 2, year = 2023, timestamp = 1675252800,
              notetext = ''c'', tags = ''[generic]''\<rparr>"

text \<open>\<^verbatim>\<open>notectl new hello\<close>\<close>

definition new_hello :: new_flags where
  "new_hello = \<lparr>newNotePtr = [], newEditorNotePtr = False, newTagList = [], NFlag = 0,
                Args = [''hello''], osArgs = [''hello'']\<rparr>"

text \<open>\<^verbatim>\<open>notectl new -n hello\<close>\<close>

definition new_n_hello :: new_flags where
  "new_n_hello = \<lparr>newNotePtr = ''hello'', newEditorNotePtr = False, newTagList = [], NFlag = 1,
                  Args = [], osArgs = [''-n'', ''hello'']\<rparr>"

text \<open>\<^verbatim>\<open>notectl new -n hello -t a,b\<close>\<close>

definition new_n_t :: new_flags where
  "new_n_t = \<lparr>newNotePtr = ''hello'', newEditorNotePtr = False, newTagList = tagList_Set ''a,b'',
              NFlag = 2, Args = [], osArgs = [''-n'', ''hello'', ''-t'', ''a,b'']\<rparr>"

text \<open>\<^verbatim>\<open>notectl new\<close>\<close>

definition new_bare :: new_flags where
  "new_bare = \<lparr>newNotePtr = [], newEditorNotePtr = False, newTagList = [], NFlag = 0,
               Args = [], osArgs = []\<rparr>"

text \<open>\<^verbatim>\<open>notectl new -t work\<close>\<close>

definition new_t_only :: new_flags where
  "new_t_only = \<lparr>newNotePtr = [], newEditorNotePtr = False, newTagList = tagList_Set ''work'',
                 NFlag = 1, Args = [], osArgs = [''-t'', ''work'']\<rparr>"

text \<open>\<^verbatim>\<open>notectl show\<close>, \<^verbatim>\<open>notectl show -all\<close> and \<^verbatim>\<open>notectl show -day 5 -year 2023\<close>\<close>

definition show_none :: show_flags where
  "show_none = \<lparr>showAllPtr = False, showByIDPtr = - 1, showByDayPtr = - 1, showByMonthPtr = - 1,
                showByYearPtr = - 1, showByDatePtr = [], showUSADatePtr = False\<rparr>"

definition show_all :: show_flags where
  "show_all = show_none\<lparr>showAllPtr := True\<rparr>"

definition show_day_year :: show_flags where
  "show_day_year = show_none\<lparr>showByDayPtr := 5, showByYearPtr := 2023\<rparr>"



section \<open>Properties\<close>

subsection \<open>Basic facts about the store\<close>

lemma createTable_cases:
  "createTableIfNotExist None = Some []" "createTableIfNotExist (Some rs) = Some rs"
  by (simp_all add: createTableIfNotExist_def)

lemma rows_of_simps:
  "rows_of None = []" "rows_of (Some rs) = rs"
  by (simp_all add: rows_of_def)

lemma createTable_rows: "createTableIfNotExist db = Some (rows_of db)"
  by (cases db) (simp_all add: createTable_cases rows_of_simps)

subsection \<open>The filters of \<open>show\<close>\<close>

text \<open>
  C1. A \<open>show\<close> invocation applies the first filter, in the order all, id, day, month,
  year, date, that is set (an integer filter is set when it is not \<open>-1\<close>, the date
  when it is not empty), and only that one. When none is set it prints the option
  help and exits with status 1, and no row is selected or printed.
\<close>

theorem show_filter_precedence:
  "(\<forall>k. find (filter_set f) filter_precedence = Some k \<longrightarrow>
        main (ParsedShow f) w db =
          finish (apply_filter k f w (createTableIfNotExist db)) (createTableIfNotExist db))
   \<and> (find (filter_set f) filter_precedence = None \<longrightarrow>
        main (ParsedShow f) w db =
          \<lparr>status = Exit 1, console = [PrintDefaults showCommand],
           store = createTableIfNotExist db\<rparr>)"
  by (auto simp: main_def main_show_def filter_precedence_def Let_def)

text \<open>
  With both \<open>-day 5\<close> and \<open>-year 2023\<close> given, the day filter is the one applied
  (on 20 April 2024 it selects the row of 5 April 2024); with no filter the run is
  a usage error.
\<close>

theorem show_filter_precedence_witness:
  "main (ParsedShow show_day_year) w0 (Some [row_mar, row_apr]) =
     \<lparr>status = Returned, console = [PrintRow row_apr], store = Some [row_mar, row_apr]\<rparr>
   \<and> main (ParsedShow show_none) w0 (Some [row_mar]) =
     \<lparr>status = Exit 1, console = [PrintDefaults showCommand], store = Some [row_mar]\<rparr>"
  using show_filter_precedence [of show_day_year w0 "Some [row_mar, row_apr]"]
        show_filter_precedence [of show_none w0 "Some [row_mar]"]
  by (simp add: filter_precedence_def show_day_year_def show_none_def createTable_cases
      finish_def showNoteByDay_def printRows_def Query_def w0_def t0_def row_mar_def row_apr_def)



subsection \<open>Creating a note\<close>

lemma Save_Some:
  "Save n (Some rs) =
     Inr (Some (rs @ [\<lparr>id_col = next_rowid rs, day = Day (Time n), month = Month (Time n),
                       year = Year (Time n), timestamp = Unix (Time n),
                       notetext = Text n, tags = tagList_String (Tags n)\<rparr>]))"
  by (simp add: Save_def)

lemma Set_generic: "tagList_Set ''generic'' = [''generic'']"
  by (simp add: tagList_Set_def)

lemma capture_cases:
  "captureFromEditor env =
     (if tempFileFails env then ([], Inl TempFileError)
      else if closeFails env then ([RemoveTempFile], Inl CloseError)
      else if lookPathFails env then ([RemoveTempFile], Inl LookPathError)
      else if runFails env then ([RunEditor, RemoveTempFile], Inl RunError)
      else ([RunEditor, RemoveTempFile], Inr (fileBytes env)))"
  by (simp add: captureFromEditor_def openFileInEditor_def)

lemma main_new_usage:
  "new_usage_error f \<Longrightarrow>
     main (ParsedNew f) w db =
       \<lparr>status = Exit 1, console = [PrintDefaults newCommand], store = createTableIfNotExist db\<rparr>"
  by (simp add: main_def main_new_def new_usage_error_def)

lemma main_new_args:
  "\<not> newEditorNotePtr f \<Longrightarrow> NFlag f = 0 \<Longrightarrow> osArgs f \<noteq> [] \<Longrightarrow>
     main (ParsedNew f) w db = note_saved [] (now1 w) (strings_Join (Args f) '' '') (note_tags f) db"
  by (simp add: main_def main_new_def note_saved_def note_tags_def createTable_rows Save_Some
      PrintConsole_def Set_generic)

lemma main_new_option:
  "\<not> newEditorNotePtr f \<Longrightarrow> NFlag f > 0 \<Longrightarrow> newNotePtr f \<noteq> [] \<Longrightarrow>
     main (ParsedNew f) w db = note_saved [] (now1 w) (newNotePtr f) (note_tags f) db"
  by (simp add: main_def main_new_def note_saved_def note_tags_def createTable_rows Save_Some
      PrintConsole_def Set_generic)

lemma main_new_editor:
  "newEditorNotePtr f \<or> (NFlag f = 0 \<and> osArgs f = []) \<Longrightarrow>
     main (ParsedNew f) w db =
       (case captureFromEditor (editor w) of
          (evs, Inl e) \<Rightarrow> \<lparr>status = Panicked e, console = evs, store = createTableIfNotExist db\<rparr>
        | (evs, Inr bs) \<Rightarrow> note_saved evs (now1 w) bs (note_tags f) db)"
  by (auto simp: main_def main_new_def note_saved_def note_tags_def createTable_rows Save_Some
      PrintConsole_def Set_generic capture_cases)

text \<open>
  C2, as the code has it. The editor is run exactly when the open-editor flag is true
  or no flag was set and nothing follows \<open>new\<close> on the command line (and the
  temporary file and the editor's path were obtained); when the session succeeds, the
  bytes read back from the temporary file are the note text. When no flag was set and
  something follows \<open>new\<close>, the positional arguments joined with single spaces
  are the note text. When a flag was set, the editor flag is false and \<open>-n\<close> is
  not empty, the value of \<open>-n\<close> is the note text. When a flag was set, the editor
  flag is false and \<open>-n\<close> is empty, the run is a usage error.
\<close>

theorem new_note_text_source:
  "(RunEditor \<in> set (console (main (ParsedNew f) w db)) \<longleftrightarrow>
      (newEditorNotePtr f \<or> (NFlag f = 0 \<and> osArgs f = []))
      \<and> \<not> tempFileFails (editor w) \<and> \<not> closeFails (editor w) \<and> \<not> lookPathFails (editor w))
   \<and> ((newEditorNotePtr f \<or> (NFlag f = 0 \<and> osArgs f = []))
        \<and> captureFromEditor (editor w) = ([RunEditor, RemoveTempFile], Inr (fileBytes (editor w))) \<longrightarrow>
        main (ParsedNew f) w db =
          note_saved [RunEditor, RemoveTempFile] (now1 w) (fileBytes (editor w)) (note_tags f) db)
   \<and> (\<not> newEditorNotePtr f \<and> NFlag f = 0 \<and> osArgs f \<noteq> [] \<longrightarrow>
        main (ParsedNew f) w db =
          note_saved [] (now1 w) (strings_Join (Args f) '' '') (note_tags f) db)
   \<and> (\<not> newEditorNotePtr f \<and> NFlag f > 0 \<and> newNotePtr f \<noteq> [] \<longrightarrow>
        main (ParsedNew f) w db = note_saved [] (now1 w) (newNotePtr f) (note_tags f) db)
   \<and> (\<not> newEditorNotePtr f \<and> NFlag f > 0 \<and> newNotePtr f = [] \<longrightarrow>
        main (ParsedNew f) w db =
          \<lparr>status = Exit 1, console = [PrintDefaults newCommand],
           store = createTableIfNotExist db\<rparr>)"
proof -
  have ed: "RunEditor \<in> set (console (main (ParsedNew f) w db)) \<longleftrightarrow>
      (newEditorNotePtr f \<or> (NFlag f = 0 \<and> osArgs f = []))
      \<and> \<not> tempFileFails (editor w) \<and> \<not> closeFails (editor w) \<and> \<not> lookPathFails (editor w)"
  proof (cases "newEditorNotePtr f \<or> (NFlag f = 0 \<and> osArgs f = [])")
    case True
    then show ?thesis
      by (simp add: main_new_editor capture_cases note_saved_def)
  next
    case False
    then consider "new_usage_error f"
      | "\<not> newEditorNotePtr f" "NFlag f = 0" "osArgs f \<noteq> []"
      | "\<not> newEditorNotePtr f" "NFlag f > 0" "newNotePtr f \<noteq> []"
      by (auto simp: new_usage_error_def)
    then show ?thesis
    proof cases
      case 1
      then have "main (ParsedNew f) w db =
          \<lparr>status = Exit 1, console = [PrintDefaults newCommand],
           store = createTableIfNotExist db\<rparr>"
        by (rule main_new_usage)
      with False show ?thesis by auto
    next
      case 2
      with False show ?thesis by (simp add: main_new_args note_saved_def)
    next
      case 3
      with False show ?thesis by (simp add: main_new_option note_saved_def)
    qed
  qed
  have e2: "(newEditorNotePtr f \<or> (NFlag f = 0 \<and> osArgs f = []))
        \<and> captureFromEditor (editor w) = ([RunEditor, RemoveTempFile], Inr (fileBytes (editor w))) \<longrightarrow>
        main (ParsedNew f) w db =
          note_saved [RunEditor, RemoveTempFile] (now1 w) (fileBytes (editor w)) (note_tags f) db"
    by (simp add: main_new_editor)
  have us: "\<not> newEditorNotePtr f \<and> NFlag f > 0 \<and> newNotePtr f = [] \<longrightarrow>
        main (ParsedNew f) w db =
          \<lparr>status = Exit 1, console = [PrintDefaults newCommand],
           store = createTableIfNotExist db\<rparr>"
    by (simp add: main_new_usage new_usage_error_def)
  from ed e2 us show ?thesis
    by (simp add: main_new_args main_new_option)
qed

text \<open>
  \<^verbatim>\<open>notectl new\<close> runs the editor; \<^verbatim>\<open>notectl new hello\<close> takes the
  positional argument; \<^verbatim>\<open>notectl new -n hello\<close> takes the option;
  \<^verbatim>\<open>notectl new -t work\<close> is a usage error.
\<close>

theorem new_note_text_source_witness:
  "RunEditor \<in> set (console (main (ParsedNew new_bare) w0 None))
   \<and> main (ParsedNew new_bare) w0 None =
       note_saved [RunEditor, RemoveTempFile] t0 ''typed in the editor'' [''generic''] None
   \<and> main (ParsedNew new_hello) w0 None = note_saved [] t0 ''hello'' [''generic''] None
   \<and> main (ParsedNew new_n_hello) w0 None = note_saved [] t0 ''hello'' [''generic''] None
   \<and> main (ParsedNew new_t_only) w0 None =
       \<lparr>status = Exit 1, console = [PrintDefaults newCommand], store = Some []\<rparr>"
  using new_note_text_source [of new_bare w0 None] new_note_text_source [of new_hello w0 None]
        new_note_text_source [of new_n_hello w0 None] new_note_text_source [of new_t_only w0 None]
  by (simp add: new_bare_def new_hello_def new_n_hello_def new_t_only_def w0_def ed0_def
      capture_cases note_tags_def createTable_cases tagList_Set_def note_saved_def)

text \<open>
  C2 as stated fails for \<^verbatim>\<open>notectl new -n hello\<close>: the editor is not run, the
  note is built and saved, and its text is the value of \<open>-n\<close>, not the joined
  positional arguments (there are none, so the joined text is empty).
\<close>

theorem new_text_option_counterexample:
  "status (main (ParsedNew new_n_hello) w0 None) = Returned
   \<and> RunEditor \<notin> set (console (main (ParsedNew new_n_hello) w0 None))
   \<and> notetext (last (rows_of (store (main (ParsedNew new_n_hello) w0 None)))) = ''hello''
   \<and> strings_Join (Args new_n_hello) '' '' = []"
  by (simp add: main_def main_new_def new_n_hello_def w0_def createTable_cases Save_Some
      PrintConsole_def rows_of_simps)

lemma main_new_Returned:
  assumes "status (main (ParsedNew f) w db) = Returned"
  shows "\<exists>evs txt. main (ParsedNew f) w db = note_saved evs (now1 w) txt (note_tags f) db"
proof -
  consider "new_usage_error f"
    | "newEditorNotePtr f \<or> (NFlag f = 0 \<and> osArgs f = [])"
    | "\<not> newEditorNotePtr f" "NFlag f = 0" "osArgs f \<noteq> []"
    | "\<not> newEditorNotePtr f" "NFlag f > 0" "newNotePtr f \<noteq> []"
    by (cases "NFlag f = 0") (auto simp: new_usage_error_def)
  then show ?thesis
  proof cases
    case 1
    with assms show ?thesis by (simp add: main_new_usage)
  next
    case 2
    with assms show ?thesis
      by (auto simp: main_new_editor split: prod.splits sum.splits)
  next
    case 3
    then show ?thesis using main_new_args by blast
  next
    case 4
    then show ?thesis using main_new_option by blast
  qed
qed

lemma note_saved_tags:
  "tags (last (rows_of (store (note_saved evs t txt tgs db)))) = tagList_String tgs"
  by (simp add: note_saved_def rows_of_simps)

text \<open>
  C3, as the code has it. A \<open>new\<close> invocation that returns has inserted one row
  built from the note, and the note's tags are \<open>["generic"]\<close> when no tag option was
  given. The tags column of that row is what \<open>Tags.String()\<close> yields: the tags
  separated by single spaces, within square brackets. Without a tag option the
  column is the string \<open>[generic]\<close>.
\<close>

theorem new_tags_column:
  assumes "status (main (ParsedNew f) w db) = Returned"
  shows "(\<exists>evs txt. main (ParsedNew f) w db = note_saved evs (now1 w) txt (note_tags f) db)
     \<and> tags (last (rows_of (store (main (ParsedNew f) w db)))) =
         ''['' @ strings_Join (note_tags f) '' '' @ '']''
     \<and> (newTagList f = [] \<longrightarrow>
          note_tags f = [''generic'']
          \<and> tags (last (rows_of (store (main (ParsedNew f) w db)))) = ''[generic]'')"
proof -
  from assms obtain evs tx
    where eq: "main (ParsedNew f) w db = note_saved evs (now1 w) tx (note_tags f) db"
    using main_new_Returned by blast
  then have "tags (last (rows_of (store (main (ParsedNew f) w db)))) = tagList_String (note_tags f)"
    by (simp add: note_saved_tags)
  with eq show ?thesis
    by (auto simp: tagList_String_def note_tags_def)
qed

text \<open>\<^verbatim>\<open>notectl new hello\<close> returns and stores the tags column \<open>[generic]\<close>.\<close>

theorem new_tags_column_witness:
  "status (main (ParsedNew new_hello) w0 None) = Returned
   \<and> tags (last (rows_of (store (main (ParsedNew new_hello) w0 None)))) = ''[generic]''"
proof -
  have h: "status (main (ParsedNew new_hello) w0 None) = Returned"
    by (simp add: main_def main_new_def new_hello_def w0_def createTable_cases Save_Some)
  from new_tags_column [OF h] h show ?thesis
    by (simp add: new_hello_def)
qed

text \<open>
  C3 as stated fails: \<^verbatim>\<open>notectl new hello\<close> stores \<open>[generic]\<close>, which is not the
  string \<open>generic\<close>, and \<^verbatim>\<open>notectl new -n hello -t a,b\<close> stores \<open>[a b]\<close>, which
  is not the tags joined with commas.
\<close>

theorem new_tags_column_counterexample:
  "tags (last (rows_of (store (main (ParsedNew new_hello) w0 None)))) = ''[generic]''
   \<and> ''[generic]'' \<noteq> ''generic''
   \<and> tags (last (rows_of (store (main (ParsedNew new_n_t) w0 None)))) = ''[a b]''
   \<and> ''[a b]'' \<noteq> strings_Join (newTagList new_n_t) '',''"
  by (simp add: main_def main_new_def new_hello_def new_n_t_def w0_def createTable_cases Save_Some
      rows_of_simps tagList_String_def tagList_Set_def)

subsection \<open>Deleting all notes\<close>

lemma deleteAll_Cons:
  "deleteAll (c # rest) db =
     (if c = 121 \<or> c = 89
      then (case db of
              None \<Rightarrow> \<lparr>status = Panicked NilDereference,
                       console = [Println ''Are you sure you want to delete all notes? (y/n)'',
                                  Println ''Deleting all notes...''], store = None\<rparr>
            | Some rs \<Rightarrow> \<lparr>status = Returned,
                          console = [Println ''Are you sure you want to delete all notes? (y/n)'',
                                     Println ''Deleting all notes...''], store = Some []\<rparr>)
      else \<lparr>status = Returned,
            console = [Println ''Are you sure you want to delete all notes? (y/n)'',
                       Println ''Not deleting notes, everything is still there.''],
            store = db\<rparr>)"
  by (simp add: deleteAll_def createTable_cases split: option.splits)

lemma main_show_all:
  "showAllPtr f \<Longrightarrow>
     main (ParsedShow f) w db =
       \<lparr>status = Returned, console = map PrintRow (rows_of db), store = Some (rows_of db)\<rparr>"
  by (simp add: main_def main_show_def createTable_rows showAllNotes_def Query_def printRows_def
      finish_def)

lemma main_delete_all:
  "main (ParsedDelete True) w db = deleteAll (stdin w) (Some (rows_of db))"
  by (simp add: main_def main_delete_def createTable_rows)

text \<open>
  C10. \<open>deleteAll\<close> looks at the first rune of standard input only: what follows it
  does not change the outcome. The runes \<open>y\<close> and \<open>Y\<close> both confirm, and the table
  is emptied; any other first rune declines, the message is printed and the
  database is left as it was. So an input that begins with \<open>n\<close> or with a space
  changes nothing.
\<close>

theorem deleteAll_first_rune:
  "deleteAll (c # rest) db = deleteAll [c] db
   \<and> (c = of_char (CHR ''y'') \<or> c = of_char (CHR ''Y'') \<longrightarrow>
        deleteAll (c # rest) (Some rs) =
          \<lparr>status = Returned,
           console = [Println ''Are you sure you want to delete all notes? (y/n)'',
                      Println ''Deleting all notes...''],
           store = Some []\<rparr>)
   \<and> (c \<noteq> of_char (CHR ''y'') \<and> c \<noteq> of_char (CHR ''Y'') \<longrightarrow>
        deleteAll (c # rest) db =
          \<lparr>status = Returned,
           console = [Println ''Are you sure you want to delete all notes? (y/n)'',
                      Println ''Not deleting notes, everything is still there.''],
           store = db\<rparr>)
   \<and> store (deleteAll (of_char (CHR ''n'') # rest) db) = db
   \<and> store (deleteAll (of_char (CHR '' '') # rest) db) = db"
  by (simp add: deleteAll_Cons)

text \<open>
  The inputs \<open>Yes\<close> and \<open>yikes, no\<close> delete the two rows; \<open>no\<close> and a space followed
  by \<open>y\<close> keep them.
\<close>

theorem deleteAll_first_rune_witness:
  "store (deleteAll (map of_char ''Yes'') (Some [row_mar, row_apr])) = Some []
   \<and> store (deleteAll (map of_char ''yikes, no'') (Some [row_mar, row_apr])) = Some []
   \<and> store (deleteAll (map of_char ''no'') (Some [row_mar, row_apr])) = Some [row_mar, row_apr]
   \<and> store (deleteAll (map of_char '' y'') (Some [row_mar, row_apr])) = Some [row_mar, row_apr]"
  using deleteAll_first_rune [of "of_char (CHR ''Y'')" "map of_char ''es''" "Some [row_mar, row_apr]" "[row_mar, row_apr]"]
        deleteAll_first_rune [of "of_char (CHR ''y'')" "map of_char ''ikes, no''" "Some [row_mar, row_apr]" "[row_mar, row_apr]"]
        deleteAll_first_rune [of "of_char (CHR ''n'')" "map of_char ''o''" "Some [row_mar, row_apr]" "[row_mar, row_apr]"]
        deleteAll_first_rune [of "of_char (CHR '' '')" "map of_char ''y''" "Some [row_mar, row_apr]" "[row_mar, row_apr]"]
  by (simp add: deleteAll_Cons)

text \<open>
  C5, as the code has it. A \<open>delete -all\<close> invocation answered with a response whose
  first rune is \<open>y\<close> or \<open>Y\<close> removes all rows, and a following \<open>show -all\<close> prints
  nothing. Answered with a response whose first rune is anything else, it prints
  the message that nothing was deleted and leaves every row in place, and a
  following \<open>show -all\<close> prints all of them. With no input at all the program
  panics, and the rows are in place as well.
\<close>

theorem delete_all_gate:
  assumes "showAllPtr f"
  shows "(\<forall>c rest. stdin w = c # rest \<and> (c = of_char (CHR ''y'') \<or> c = of_char (CHR ''Y'')) \<longrightarrow>
           status (main (ParsedDelete True) w db) = Returned
           \<and> store (main (ParsedDelete True) w db) = Some []
           \<and> console (main (ParsedShow f) w' (store (main (ParsedDelete True) w db))) = [])
       \<and> (\<forall>c rest. stdin w = c # rest \<and> c \<noteq> of_char (CHR ''y'') \<and> c \<noteq> of_char (CHR ''Y'') \<longrightarrow>
           main (ParsedDelete True) w db =
             \<lparr>status = Returned,
              console = [Println ''Are you sure you want to delete all notes? (y/n)'',
                         Println ''Not deleting notes, everything is still there.''],
              store = Some (rows_of db)\<rparr>
           \<and> console (main (ParsedShow f) w' (store (main (ParsedDelete True) w db))) =
               map PrintRow (rows_of db))
       \<and> (stdin w = [] \<longrightarrow>
           status (main (ParsedDelete True) w db) = Panicked EOF
           \<and> store (main (ParsedDelete True) w db) = Some (rows_of db))"
proof -
  have eof: "stdin w = [] \<longrightarrow>
           status (main (ParsedDelete True) w db) = Panicked EOF
           \<and> store (main (ParsedDelete True) w db) = Some (rows_of db)"
    by (simp add: main_delete_all deleteAll_def)
  from assms eof show ?thesis
    by (auto simp: main_delete_all deleteAll_Cons main_show_all rows_of_simps)
qed

text \<open>The answers \<open>y\<close> and \<open>n\<close> on a table of two rows, each followed by \<open>show -all\<close>.\<close>

theorem delete_all_gate_witness:
  "store (main (ParsedDelete True) (w0\<lparr>stdin := map of_char ''y''\<rparr>) (Some [row_mar, row_apr])) = Some []
   \<and> console (main (ParsedShow show_all) w0
        (store (main (ParsedDelete True) (w0\<lparr>stdin := map of_char ''y''\<rparr>) (Some [row_mar, row_apr])))) = []
   \<and> store (main (ParsedDelete True) (w0\<lparr>stdin := map of_char ''n''\<rparr>) (Some [row_mar, row_apr])) =
        Some [row_mar, row_apr]
   \<and> console (main (ParsedShow show_all) w0
        (store (main (ParsedDelete True) (w0\<lparr>stdin := map of_char ''n''\<rparr>) (Some [row_mar, row_apr])))) =
        [PrintRow row_mar, PrintRow row_apr]"
proof -
  have h: "showAllPtr show_all" by (simp add: show_all_def show_none_def)
  from delete_all_gate [OF h, of "w0\<lparr>stdin := map of_char ''y''\<rparr>" "Some [row_mar, row_apr]" w0]
       delete_all_gate [OF h, of "w0\<lparr>stdin := map of_char ''n''\<rparr>" "Some [row_mar, row_apr]" w0]
  show ?thesis by (simp add: rows_of_simps main_delete_all deleteAll_Cons main_show_all h)
qed

text \<open>
  C5 as stated fails: the response \<open>Y\<close> is a response other than \<open>y\<close>, and it
  removes both rows; the following \<open>show -all\<close> prints nothing.
\<close>

theorem delete_all_other_response_counterexample:
  "map of_char ''Y'' \<noteq> (map of_char ''y'' :: rune list)
   \<and> store (main (ParsedDelete True) (w0\<lparr>stdin := map of_char ''Y''\<rparr>) (Some [row_mar, row_apr])) = Some []
   \<and> console (main (ParsedShow show_all) w0
        (store (main (ParsedDelete True) (w0\<lparr>stdin := map of_char ''Y''\<rparr>) (Some [row_mar, row_apr])))) = []"
  by (simp add: main_delete_all deleteAll_Cons main_show_all rows_of_simps
      show_all_def show_none_def)

subsection \<open>Usage errors\<close>

lemma main_show_usage:
  "find (filter_set f) filter_precedence = None \<Longrightarrow>
     main (ParsedShow f) w db =
       \<lparr>status = Exit 1, console = [PrintDefaults showCommand], store = Some (rows_of db)\<rparr>"
  by (auto simp: main_def main_show_def filter_precedence_def createTable_rows split: if_splits)

lemma main_delete_usage:
  "main (ParsedDelete False) w db =
     \<lparr>status = Exit 1, console = [PrintDefaults deleteCommand], store = Some (rows_of db)\<rparr>"
  by (simp add: main_def main_delete_def createTable_rows)

text \<open>
  C9, as the code has it. An invocation that ends in a usage error prints the
  option help of its flag set and exits with status 1. No row is inserted or
  removed. The table is ensured before the options are looked at, so the one
  change the run can make to the database file is to create the empty table when
  the file had none; a database that has the table is left exactly as it was.
\<close>

theorem usage_error_effect:
  assumes "usage_error cmd"
  shows "status (main cmd w db) = Exit 1
     \<and> (\<exists>fs. console (main cmd w db) = [PrintDefaults fs])
     \<and> store (main cmd w db) = createTableIfNotExist db
     \<and> rows_of (store (main cmd w db)) = rows_of db
     \<and> (db \<noteq> None \<longrightarrow> store (main cmd w db) = db)"
proof (cases cmd)
  case (ParsedNew f)
  with assms have "new_usage_error f" by simp
  then show ?thesis
    unfolding ParsedNew by (cases db) (simp_all add: main_new_usage createTable_cases rows_of_simps)
next
  case (ParsedShow f)
  with assms have "find (filter_set f) filter_precedence = None" by simp
  then show ?thesis
    unfolding ParsedShow by (cases db) (simp_all add: main_show_usage createTable_cases rows_of_simps)
next
  case (ParsedDelete a)
  with assms have "\<not> a" by simp
  then show ?thesis
    unfolding ParsedDelete by (cases db) (simp_all add: main_delete_usage createTable_cases rows_of_simps)
qed (use assms in simp_all)

text \<open>\<^verbatim>\<open>notectl new -t work\<close> on a table of one row.\<close>

theorem usage_error_effect_witness:
  "usage_error (ParsedNew new_t_only)
   \<and> main (ParsedNew new_t_only) w0 (Some [row_mar]) =
       \<lparr>status = Exit 1, console = [PrintDefaults newCommand], store = Some [row_mar]\<rparr>"
proof -
  have h: "usage_error (ParsedNew new_t_only)"
    by (simp add: new_usage_error_def new_t_only_def)
  from usage_error_effect [OF h, of w0 "Some [row_mar]"] h show ?thesis
    by (auto simp: main_new_usage new_usage_error_def new_t_only_def createTable_cases)
qed

text \<open>
  C9 as stated fails on a database file without the table: \<^verbatim>\<open>notectl show\<close> is a
  usage error, and after it the file holds the (empty) table \<open>notes\<close>.
\<close>

theorem usage_error_schema_counterexample:
  "usage_error (ParsedShow show_none)
   \<and> status (main (ParsedShow show_none) w0 None) = Exit 1
   \<and> store (main (ParsedShow show_none) w0 None) = Some []
   \<and> store (main (ParsedShow show_none) w0 None) \<noteq> None"
  by (simp add: main_def main_show_def show_none_def filter_precedence_def createTable_cases)

subsection \<open>Row ids\<close>











subsection \<open>The date filter\<close>

lemma Split_nonempty: "strings_Split s sep \<noteq> []"
  by (induction s) (auto split: list.splits)

lemma Split_no_sep: "sep \<notin> set a \<Longrightarrow> strings_Split a sep = [a]"
  by (induction a) auto

lemma Split_append:
  "sep \<notin> set a \<Longrightarrow> strings_Split (a @ sep # rest) sep = a # strings_Split rest sep"
  by (induction a) auto

lemma Split_three:
  assumes "sep \<notin> set a" "sep \<notin> set b" "sep \<notin> set c"
  shows "strings_Split (a @ [sep] @ b @ [sep] @ c) sep = [a, b, c]"
  using assms by (simp add: Split_append Split_no_sep)

lemma dateFields_three:
  "dateFields [a, b, c] 0 (Suc 0) 2 =
     Inr (fst (strconv_Atoi a), fst (strconv_Atoi b), fst (strconv_Atoi c))"
  "dateFields [a, b, c] (Suc 0) 0 2 =
     Inr (fst (strconv_Atoi b), fst (strconv_Atoi a), fst (strconv_Atoi c))"
  by (simp_all add: dateFields_def index_def)

lemma showNoteByDate_three:
  assumes "strings_Split date (CHR ''/'') = [a, b, c]"
  shows "showNoteByDate date False db =
           printRows (Query (\<lambda>r. day r = fst (strconv_Atoi a) \<and> month r = fst (strconv_Atoi b)
                                  \<and> year r = fst (strconv_Atoi c)) db)"
    and "showNoteByDate date True db =
           printRows (Query (\<lambda>r. day r = fst (strconv_Atoi b) \<and> month r = fst (strconv_Atoi a)
                                  \<and> year r = fst (strconv_Atoi c)) db)"
  using assms by (simp_all add: showNoteByDate_def dateFields_three)

lemma Atoi_examples:
  "strconv_Atoi ''01'' = (1, False)" "strconv_Atoi ''02'' = (2, False)"
  "strconv_Atoi ''2023'' = (2023, False)"
  by (simp_all add: strconv_Atoi_def isDigit_def)

text \<open>
  C7. For all day, month and year fields (any three strings without a slash, so
  in particular the decimal forms of any three numbers) and every database,
  \<open>show -date d/m/y\<close> without the usa flag and \<open>show -date m/d/y\<close> with it give
  the same result; on a table they print exactly the rows whose day, month and
  year are the numbers the three fields are read as. In particular
  \<open>01/02/2023\<close> without the flag and \<open>02/01/2023\<close> with it both print exactly the
  rows with day 1, month 2 and year 2023.
\<close>

theorem date_usa_swap:
  assumes "CHR ''/'' \<notin> set sd" "CHR ''/'' \<notin> set sm" "CHR ''/'' \<notin> set sy"
  shows "showNoteByDate (sd @ ''/'' @ sm @ ''/'' @ sy) False db =
           showNoteByDate (sm @ ''/'' @ sd @ ''/'' @ sy) True db
       \<and> showNoteByDate (sd @ ''/'' @ sm @ ''/'' @ sy) False (Some rs) =
           Inr (map PrintRow (filter (\<lambda>r. day r = fst (strconv_Atoi sd)
                                          \<and> month r = fst (strconv_Atoi sm)
                                          \<and> year r = fst (strconv_Atoi sy)) rs))
       \<and> showNoteByDate ''01/02/2023'' False (Some rs) =
           Inr (map PrintRow (filter (\<lambda>r. day r = 1 \<and> month r = 2 \<and> year r = 2023) rs))
       \<and> showNoteByDate ''02/01/2023'' True (Some rs) =
           Inr (map PrintRow (filter (\<lambda>r. day r = 1 \<and> month r = 2 \<and> year r = 2023) rs))"
proof -
  have dmy: "strings_Split (sd @ ''/'' @ sm @ ''/'' @ sy) (CHR ''/'') = [sd, sm, sy]"
    using assms by (rule Split_three)
  have mdy: "strings_Split (sm @ ''/'' @ sd @ ''/'' @ sy) (CHR ''/'') = [sm, sd, sy]"
    using assms(2,1,3) by (rule Split_three)
  have e1: "strings_Split ''01/02/2023'' (CHR ''/'') = [''01'', ''02'', ''2023'']" by simp
  have e2: "strings_Split ''02/01/2023'' (CHR ''/'') = [''02'', ''01'', ''2023'']" by simp
  note c1 = showNoteByDate_three(1) [OF dmy] and c2 = showNoteByDate_three(2) [OF mdy]
    and c3 = showNoteByDate_three(1) [OF e1] and c4 = showNoteByDate_three(2) [OF e2]
  show ?thesis
    unfolding c1 c2 c3 c4 by (simp add: Atoi_examples printRows_def Query_def)
qed

text \<open>
  Both forms of 5 April 2024 print the row of that day, and both forms of
  1 February 2023 print the row of that day.
\<close>

theorem date_usa_swap_witness:
  "showNoteByDate ''5/4/2024'' False (Some [row_mar, row_apr]) = Inr [PrintRow row_apr]
   \<and> showNoteByDate ''4/5/2024'' True (Some [row_mar, row_apr]) = Inr [PrintRow row_apr]
   \<and> showNoteByDate ''01/02/2023'' False (Some [row_feb, row_apr]) = Inr [PrintRow row_feb]
   \<and> showNoteByDate ''02/01/2023'' True (Some [row_feb, row_apr]) = Inr [PrintRow row_feb]"
proof -
  have h: "CHR ''/'' \<notin> set ''5''" "CHR ''/'' \<notin> set ''4''" "CHR ''/'' \<notin> set ''2024''"
    by simp_all
  have a: "strconv_Atoi ''5'' = (5, False)" "strconv_Atoi ''4'' = (4, False)"
    "strconv_Atoi ''2024'' = (2024, False)"
    by (simp_all add: strconv_Atoi_def isDigit_def)
  note t1 = date_usa_swap [OF h, of "Some [row_mar, row_apr]" "[row_mar, row_apr]"]
  note t2 = date_usa_swap [OF h, of "Some [row_feb, row_apr]" "[row_feb, row_apr]"]
  have p1: "showNoteByDate ''5/4/2024'' False (Some [row_mar, row_apr]) =
      showNoteByDate ''4/5/2024'' True (Some [row_mar, row_apr])"
    using t1 [THEN conjunct1] by simp
  have p2: "showNoteByDate ''5/4/2024'' False (Some [row_mar, row_apr]) = Inr [PrintRow row_apr]"
    using t1 [THEN conjunct2, THEN conjunct1] by (simp add: a row_mar_def row_apr_def)
  have p3: "showNoteByDate ''01/02/2023'' False (Some [row_feb, row_apr]) = Inr [PrintRow row_feb]"
    using t2 [THEN conjunct2, THEN conjunct2, THEN conjunct1] by (simp add: row_feb_def row_apr_def)
  have p4: "showNoteByDate ''02/01/2023'' True (Some [row_feb, row_apr]) = Inr [PrintRow row_feb]"
    using t2 [THEN conjunct2, THEN conjunct2, THEN conjunct2] by (simp add: row_feb_def row_apr_def)
  from p1 p2 p3 p4 show ?thesis by simp
qed

subsection \<open>Malformed dates\<close>

lemma Atoi_not_numeric: "\<not> numeric s \<Longrightarrow> strconv_Atoi s = (0, True)"
  by (cases s) (auto simp: numeric_def strconv_Atoi_def split: if_splits)

lemma showNoteByDate_short:
  "length (strings_Split date (CHR ''/'')) < 3 \<Longrightarrow> showNoteByDate date usa db = Inl IndexOutOfRange"
  by (auto simp: showNoteByDate_def dateFields_def index_def Let_def)

lemma showNoteByDate_long:
  "3 \<le> length (strings_Split date (CHR ''/'')) \<Longrightarrow>
     showNoteByDate date usa (Some rs) =
       Inr (map PrintRow (filter
         (\<lambda>r. day r = fst (strconv_Atoi (strings_Split date (CHR ''/'') ! (if usa then 1 else 0)))
            \<and> month r = fst (strconv_Atoi (strings_Split date (CHR ''/'') ! (if usa then 0 else 1)))
            \<and> year r = fst (strconv_Atoi (strings_Split date (CHR ''/'') ! 2))) rs))"
  by (auto simp: showNoteByDate_def dateFields_def index_def Let_def printRows_def Query_def)

text \<open>
  C8, as the code has it. The date string is not validated. With fewer than three
  segments between slashes the run panics with an index out of range before any
  query is made. With three or more segments the query is made and completes,
  whatever the segments hold: the first three are read with \<open>Atoi\<close>, whose error
  is dropped, and a segment that is not numeric is read as 0.
\<close>

theorem malformed_date_behaviour:
  "(length (strings_Split date (CHR ''/'')) < 3 \<longrightarrow>
      showNoteByDate date usa db = Inl IndexOutOfRange)
   \<and> (3 \<le> length (strings_Split date (CHR ''/'')) \<longrightarrow>
      showNoteByDate date usa (Some rs) =
        Inr (map PrintRow (filter
          (\<lambda>r. day r = fst (strconv_Atoi (strings_Split date (CHR ''/'') ! (if usa then 1 else 0)))
             \<and> month r = fst (strconv_Atoi (strings_Split date (CHR ''/'') ! (if usa then 0 else 1)))
             \<and> year r = fst (strconv_Atoi (strings_Split date (CHR ''/'') ! 2))) rs)))
   \<and> (\<not> numeric s \<longrightarrow> strconv_Atoi s = (0, True))"
  using showNoteByDate_short [of date usa db] showNoteByDate_long [of date usa rs]
    Atoi_not_numeric [of s]
  by blast

text \<open>
  \<open>01/02\<close> panics; \<open>1/feb/2023\<close> completes and finds no row, the month being read
  as 0.
\<close>

theorem malformed_date_behaviour_witness:
  "showNoteByDate ''01/02'' False (Some [row_feb]) = Inl IndexOutOfRange
   \<and> showNoteByDate ''1/feb/2023'' False (Some [row_feb]) = Inr []
   \<and> strconv_Atoi ''feb'' = (0, True)"
proof -
  have l2: "length (strings_Split ''01/02'' (CHR ''/'')) < 3" by simp
  have l3: "3 \<le> length (strings_Split ''1/feb/2023'' (CHR ''/''))" by simp
  have n: "\<not> numeric ''feb''" by (simp add: numeric_def isDigit_def)
  note t1 = malformed_date_behaviour [of "''01/02''" False "Some [row_feb]" "[row_feb]" "''feb''"]
  note t2 = malformed_date_behaviour [of "''1/feb/2023''" False "Some [row_feb]" "[row_feb]" "''feb''"]
  have a: "showNoteByDate ''01/02'' False (Some [row_feb]) = Inl IndexOutOfRange"
    using t1 l2 by blast
  have c: "strconv_Atoi ''feb'' = (0, True)"
    using t1 n by blast
  have b: "showNoteByDate ''1/feb/2023'' False (Some [row_feb]) = Inr []"
    using t2 [THEN conjunct2, THEN conjunct1] l3 by (simp add: c row_feb_def)
  from a b c show ?thesis by simp
qed

text \<open>
  C8 as stated fails: \<open>a/b/c\<close> has three fields, none of them numeric, and the
  query completes with the empty result, with and without the usa flag.
\<close>

theorem malformed_date_counterexample:
  "\<not> numeric ''a'' \<and> \<not> numeric ''b'' \<and> \<not> numeric ''c''
   \<and> showNoteByDate ''a/b/c'' False (Some [row_feb]) = Inr []
   \<and> showNoteByDate ''a/b/c'' True (Some [row_feb]) = Inr []"
  by (simp add: numeric_def isDigit_def showNoteByDate_def dateFields_def index_def
      strconv_Atoi_def printRows_def Query_def row_feb_def)

end
